theory Spec2Isabelle
  imports Main "HOL-Library.AList" "HOL-Library.Char_ord"
begin

section \<open>Python values, strings and dictionaries\<close>

text \<open>
  The program is Python (\<^verbatim>\<open>src/msrc/runner_plar.py\<close>). A Python \<^verbatim>\<open>str\<close> is modelled as a
  \<^typ>\<open>string\<close>, one \<^typ>\<open>char\<close> per code point below 256. An exception is a value
  of \<open>pyexc\<close>, and a function that may raise returns \<open>pyexc + 'a\<close> with \<open>Inl\<close> for
  the raised exception. A \<^verbatim>\<open>dict\<close> with string keys is an association list in
  insertion order; assignment \<^verbatim>\<open>d[k] = v\<close> is \<open>AList.update\<close>, which replaces the
  value in place when the key exists and appends otherwise, as Python does.
\<close>

datatype pyexc =
    ValueError string
  | KeyError string
  | IndexError string
  | TypeError string
  | AttributeError string
  | OverflowError string
  | NotModelled string

text \<open>
  \<open>NotModelled\<close> is not a Python exception: it marks an input on which the model stops
  because it uses a feature of the Python runtime that is not modelled here.
\<close>

text \<open>
  Values are dynamically typed. Floating-point numbers are kept abstract (type \<open>'f\<close>):
  the operations on them that the program uses come from the record \<open>pylib\<close> below.
\<close>

datatype 'f pyval =
    PNone
  | PBool bool
  | PInt int
  | PFloat 'f
  | PStr string
  | PList "'f pyval list"
  | PDict "(string \<times> 'f pyval) list"

type_synonym 'f pydict = "(string \<times> 'f pyval) list"

text \<open>
  The operations of the Python runtime that are not modelled character by character:
  \<^verbatim>\<open>str(x)\<close> and \<^verbatim>\<open>bool(x)\<close> of a float, \<^verbatim>\<open>str(x)\<close> of a list or dict,
  and the conversions \<^verbatim>\<open>int(x)\<close>, \<^verbatim>\<open>float(x)\<close> from floats, integers and strings
  (\<open>Inl\<close> carries the text of the exception they raise).
\<close>

record 'f pylib =
  str_float :: "'f \<Rightarrow> string"
  bool_float :: "'f \<Rightarrow> bool"
  str_container :: "'f pyval \<Rightarrow> string"
  int_of_float :: "'f \<Rightarrow> string + int"
  int_of_str :: "string \<Rightarrow> string + int"
  float_of_int :: "int \<Rightarrow> string + 'f"
  float_of_str :: "string \<Rightarrow> string + 'f"

definition digit_char :: "nat \<Rightarrow> char" where
  "digit_char d = char_of (48 + d)"

function digits :: "nat \<Rightarrow> string" where
  "digits n = (if n < 10 then [digit_char n] else digits (n div 10) @ [digit_char (n mod 10)])"
  by pat_completeness auto
termination
  by (relation "measure id") auto

declare digits.simps [simp del]

definition str_int :: "int \<Rightarrow> string" where
  "str_int n = (if n < 0 then CHR ''-'' # digits (nat (- n)) else digits (nat n))"

text \<open>\<^verbatim>\<open>str(v)\<close>, which is also \<^verbatim>\<open>format(v, "")\<close> for these types.\<close>

fun py_str :: "'f pylib \<Rightarrow> 'f pyval \<Rightarrow> string" where
  "py_str L PNone = ''None''"
| "py_str L (PBool b) = (if b then ''True'' else ''False'')"
| "py_str L (PInt n) = str_int n"
| "py_str L (PFloat x) = str_float L x"
| "py_str L (PStr s) = s"
| "py_str L (PList xs) = str_container L (PList xs)"
| "py_str L (PDict kvs) = str_container L (PDict kvs)"

text \<open>Truth value of an object (\<^verbatim>\<open>bool(v)\<close>, \<^verbatim>\<open>if v\<close>, \<^verbatim>\<open>v or d\<close>).\<close>

fun truthy :: "'f pylib \<Rightarrow> 'f pyval \<Rightarrow> bool" where
  "truthy L PNone = False"
| "truthy L (PBool b) = b"
| "truthy L (PInt n) = (n \<noteq> 0)"
| "truthy L (PFloat x) = bool_float L x"
| "truthy L (PStr s) = (s \<noteq> [])"
| "truthy L (PList xs) = (xs \<noteq> [])"
| "truthy L (PDict kvs) = (kvs \<noteq> [])"

text \<open>\<^verbatim>\<open>d.get(k)\<close>: the value, or \<^verbatim>\<open>None\<close> when the key is missing.\<close>

definition dict_get :: "'f pydict \<Rightarrow> string \<Rightarrow> 'f pyval" where
  "dict_get d k = (case map_of d k of None \<Rightarrow> PNone | Some v \<Rightarrow> v)"

text \<open>
  \<^verbatim>\<open>str.isspace\<close> on code points below 256: TAB..CR, FS..US, space, NEL and NBSP.
\<close>

definition is_space :: "char \<Rightarrow> bool" where
  "is_space c = (let n = (of_char c :: nat) in
     (9 \<le> n \<and> n \<le> 13) \<or> (28 \<le> n \<and> n \<le> 32) \<or> n = 133 \<or> n = 160)"

definition lstrip :: "string \<Rightarrow> string" where
  "lstrip s = dropWhile is_space s"

definition rstrip :: "string \<Rightarrow> string" where
  "rstrip s = rev (dropWhile is_space (rev s))"

text \<open>\<^verbatim>\<open>s.strip()\<close>\<close>

definition strip :: "string \<Rightarrow> string" where
  "strip s = rstrip (lstrip s)"

section \<open>Data model\<close>

text \<open>
  The dataclasses \<^verbatim>\<open>InputSpec\<close> and \<^verbatim>\<open>ToolSpec\<close>, with the field types of their
  annotations. The field \<^verbatim>\<open>type\<close> of \<^verbatim>\<open>InputSpec\<close> is \<open>in_type\<close> here.
\<close>

record 'f InputSpec =
  in_name :: string
  in_type :: string
  in_label :: "string option"
  in_default :: "'f pyval"
  in_choices :: "string list option"
  in_required :: bool
  in_readonly :: bool

record 'f ToolSpec =
  tool_name :: string
  runner_mode :: string
  runner :: string
  script :: "string option"
  output_dir_optional :: bool
  inputs :: "'f InputSpec list"
  tool_notes :: "string option"

section \<open>Command compiler\<close>

text \<open>
  \<^verbatim>\<open>parse_module_runner\<close>: the only check is that the string contains a colon; the two
  parts of the split at the first colon are stripped and returned as they are.
\<close>

definition parse_module_runner :: "string \<Rightarrow> pyexc + (string \<times> string)" where
  "parse_module_runner s =
     (if CHR '':'' \<notin> set s then Inl (ValueError (''Runner must be 'pkg.module:function'' @ [CHR 0x27]))
      else Inr (strip (takeWhile (\<lambda>c. c \<noteq> CHR '':'') s),
                strip (drop 1 (dropWhile (\<lambda>c. c \<noteq> CHR '':'') s))))"

text \<open>
  \<^verbatim>\<open>repr(s)\<close> of a string, which is what \<^verbatim>\<open>str(e)\<close> gives for a
  \<^verbatim>\<open>KeyError\<close> \<open>e\<close> raised with the key \<open>s\<close>.
\<close>

definition hex_digit :: "nat \<Rightarrow> char" where
  "hex_digit d = (if d < 10 then char_of (48 + d) else char_of (87 + d))"

definition is_printable :: "char \<Rightarrow> bool" where
  "is_printable c = (let n = (of_char c :: nat) in
     (32 \<le> n \<and> n < 127) \<or> (161 \<le> n \<and> n \<noteq> 173))"

definition repr_char :: "char \<Rightarrow> char \<Rightarrow> string" where
  "repr_char q c =
     (if c = q \<or> c = CHR 0x5C then [CHR 0x5C, c]
      else if c = CHR 0x09 then [CHR 0x5C, CHR ''t'']
      else if c = CHR 0x0A then [CHR 0x5C, CHR ''n'']
      else if c = CHR 0x0D then [CHR 0x5C, CHR ''r'']
      else if is_printable c then [c]
      else [CHR 0x5C, CHR ''x'', hex_digit (of_char c div 16), hex_digit (of_char c mod 16)])"

definition py_repr :: "string \<Rightarrow> string" where
  "py_repr s =
     (let q = (if CHR 0x27 \<in> set s \<and> CHR 0x22 \<notin> set s then CHR 0x22 else CHR 0x27)
      in q # concat (map (repr_char q) s) @ [q])"

subsection \<open>\<^verbatim>\<open>str.format\<close> with keyword arguments only\<close>

text \<open>
  The template is read from left to right. \<^verbatim>\<open>{{\<close> and \<^verbatim>\<open>}}\<close> are literal braces; a
  replacement field runs from \<^verbatim>\<open>{\<close> to the next \<^verbatim>\<open>}\<close>. A field whose name is empty or
  a number refers to a positional argument, and there is none. Any other name is looked
  up among the keyword arguments and the value is inserted as \<^verbatim>\<open>str\<close> gives it.
  Conversions (\<^verbatim>\<open>!r\<close>), format specifications (\<^verbatim>\<open>:>8\<close>) and attribute or index
  access (\<^verbatim>\<open>.a\<close>, \<^verbatim>\<open>[0]\<close>) are not modelled.
\<close>

fun parse_field :: "string \<Rightarrow> string \<Rightarrow> pyexc + (string \<times> string)" where
  "parse_field acc [] = Inl (ValueError ''expected '}' before end of string'')"
| "parse_field acc (c # cs) =
     (if c = CHR ''{'' then Inl (ValueError ''unexpected '{' in field name'')
      else if c = CHR ''}'' then Inr (acc, cs)
      else if c = CHR ''['' \<or> c = CHR '':'' \<or> c = CHR ''!'' then
        Inl (NotModelled ''conversion, format specification or index in a replacement field'')
      else parse_field (acc @ [c]) cs)"

definition is_digit :: "char \<Rightarrow> bool" where
  "is_digit c = (CHR ''0'' \<le> c \<and> c \<le> CHR ''9'')"

definition get_field :: "'f pylib \<Rightarrow> 'f pydict \<Rightarrow> string \<Rightarrow> pyexc + string" where
  "get_field L kwargs nm =
     (if CHR ''.'' \<in> set nm then Inl (NotModelled ''attribute access in a replacement field'')
      else if nm = [] then
        Inl (IndexError ''Replacement index 0 out of range for positional args tuple'')
      else if list_all is_digit nm then
        Inl (NotModelled ''numbered replacement field'')
      else (case map_of kwargs nm of
              None \<Rightarrow> Inl (KeyError nm)
            | Some v \<Rightarrow> Inr (py_str L v)))"

function py_format :: "'f pylib \<Rightarrow> 'f pydict \<Rightarrow> string \<Rightarrow> pyexc + string" where
  "py_format L kwargs [] = Inr []"
| "py_format L kwargs (c # cs) =
     (if c = CHR ''}'' then
        (case cs of
           d # cs' \<Rightarrow>
             (if d = CHR ''}'' then map_sum id ((#) c) (py_format L kwargs cs')
              else Inl (ValueError ''Single '}' encountered in format string''))
         | [] \<Rightarrow> Inl (ValueError ''Single '}' encountered in format string''))
      else if c = CHR ''{'' then
        (case cs of
           [] \<Rightarrow> Inl (ValueError ''Single '{' encountered in format string'')
         | d # cs' \<Rightarrow>
             (if d = CHR ''{'' then map_sum id ((#) c) (py_format L kwargs cs')
              else (case parse_field [] cs of
                      Inl e \<Rightarrow> Inl e
                    | Inr (nm, rest) \<Rightarrow>
                        (case get_field L kwargs nm of
                           Inl e \<Rightarrow> Inl e
                         | Inr v \<Rightarrow> map_sum id ((@) v) (py_format L kwargs rest)))))
      else map_sum id ((#) c) (py_format L kwargs cs))"
  by pat_completeness auto

lemma parse_field_length: "parse_field acc cs = Inr (nm, rest) \<Longrightarrow> length rest < length cs"
proof (induction cs arbitrary: acc)
  case Nil
  then show ?case by simp
next
  case (Cons c cs)
  show ?case
  proof (cases "c = CHR ''}''")
    case True
    with Cons.prems show ?thesis by (simp split: if_splits)
  next
    case False
    with Cons.prems have "parse_field (acc @ [c]) cs = Inr (nm, rest)"
      by (simp split: if_splits)
    from Cons.IH [OF this] show ?thesis by simp
  qed
qed

termination py_format
  by (relation "measure (\<lambda>(L, kwargs, t). length t)")
     (auto dest: parse_field_length simp del: parse_field.simps)

subsection \<open>\<^verbatim>\<open>shlex.split\<close>\<close>

text \<open>
  \<^verbatim>\<open>shlex.split(s)\<close> runs the POSIX-mode lexer with \<^verbatim>\<open>whitespace_split\<close> set and no
  comment characters. The lexer is a state machine over the characters of \<open>s\<close>: between
  tokens (\<open>SSpace\<close>), inside a word (\<open>SWord\<close>), inside a quoted run (\<open>SQuote q\<close>), and
  after a backslash (\<open>SEscWord\<close> outside quotes, \<open>SEscQuote q\<close> inside double quotes). It
  keeps the token read so far and whether the token had a quoted part, so that an empty
  quoted run \<^verbatim>\<open>""\<close> still gives a token.
\<close>

datatype lex_state = SSpace | SWord | SQuote char | SEscWord | SEscQuote char

definition shlex_whitespace :: "char \<Rightarrow> bool" where
  "shlex_whitespace c = (c = CHR '' '' \<or> c = CHR 0x09 \<or> c = CHR 0x0D \<or> c = CHR 0x0A)"

definition shlex_quote :: "char \<Rightarrow> bool" where
  "shlex_quote c = (c = CHR 0x27 \<or> c = CHR 0x22)"

definition shlex_escape :: "char \<Rightarrow> bool" where
  "shlex_escape c = (c = CHR 0x5C)"

definition emit :: "string \<Rightarrow> bool \<Rightarrow> string list" where
  "emit tok quoted = (if tok \<noteq> [] \<or> quoted then [tok] else [])"

fun read_tokens :: "lex_state \<Rightarrow> string \<Rightarrow> bool \<Rightarrow> string \<Rightarrow> pyexc + string list" where
  "read_tokens SSpace tok quoted [] = Inr (emit tok quoted)"
| "read_tokens SWord tok quoted [] = Inr (emit tok quoted)"
| "read_tokens (SQuote q) tok quoted [] = Inl (ValueError ''No closing quotation'')"
| "read_tokens SEscWord tok quoted [] = Inl (ValueError ''No escaped character'')"
| "read_tokens (SEscQuote q) tok quoted [] = Inl (ValueError ''No escaped character'')"
| "read_tokens SSpace tok quoted (c # cs) =
     (if shlex_whitespace c then
        (if tok \<noteq> [] \<or> quoted then map_sum id ((#) tok) (read_tokens SSpace [] False cs)
         else read_tokens SSpace tok quoted cs)
      else if shlex_escape c then read_tokens SEscWord tok quoted cs
      else if shlex_quote c then read_tokens (SQuote c) tok quoted cs
      else read_tokens SWord [c] quoted cs)"
| "read_tokens (SQuote q) tok quoted (c # cs) =
     (if c = q then read_tokens SWord tok True cs
      else if shlex_escape c \<and> q = CHR 0x22 then read_tokens (SEscQuote q) tok True cs
      else read_tokens (SQuote q) (tok @ [c]) True cs)"
| "read_tokens SEscWord tok quoted (c # cs) = read_tokens SWord (tok @ [c]) quoted cs"
| "read_tokens (SEscQuote q) tok quoted (c # cs) =
     (if c \<noteq> CHR 0x5C \<and> c \<noteq> q then read_tokens (SQuote q) (tok @ [CHR 0x5C, c]) quoted cs
      else read_tokens (SQuote q) (tok @ [c]) quoted cs)"
| "read_tokens SWord tok quoted (c # cs) =
     (if shlex_whitespace c then
        (if tok \<noteq> [] \<or> quoted then map_sum id ((#) tok) (read_tokens SSpace [] False cs)
         else read_tokens SSpace tok quoted cs)
      else if shlex_quote c then read_tokens (SQuote c) tok quoted cs
      else if shlex_escape c then read_tokens SEscWord tok quoted cs
      else read_tokens SWord (tok @ [c]) quoted cs)"

definition shlex_split :: "string \<Rightarrow> pyexc + string list" where
  "shlex_split s = read_tokens SSpace [] False s"

subsection \<open>\<^verbatim>\<open>ToolForm._build_command\<close>\<close>

text \<open>
  What \<^verbatim>\<open>_build_command\<close> reads from the process it runs in: \<^verbatim>\<open>sys.executable\<close> and
  \<^verbatim>\<open>os.path.isfile\<close>.
\<close>

record sysenv =
  sys_executable :: string
  isfile :: "string \<Rightarrow> bool"

text \<open>\<^verbatim>\<open>py = sys.executable.replace(chr(92), chr(47))\<close>\<close>

definition py_exe :: "sysenv \<Rightarrow> string" where
  "py_exe env = map (\<lambda>c. if c = CHR 0x5C then CHR ''/'' else c) (sys_executable env)"

text \<open>
  \<^verbatim>\<open>toggle_names\<close> is a set in the source. The loop over it only assigns dictionary keys
  that differ for different names, so the order of the iteration does not change the
  mapping; the model iterates in the order of the inputs.
\<close>

definition toggle_names :: "'f ToolSpec \<Rightarrow> string list" where
  "toggle_names tool = remdups (map in_name (filter (\<lambda>i. in_type i = ''toggle'') (inputs tool)))"

fun add_toggle_placeholders :: "'f pylib \<Rightarrow> 'f pydict \<Rightarrow> string list \<Rightarrow> 'f pydict \<Rightarrow> 'f pydict" where
  "add_toggle_placeholders L vals [] ph = ph"
| "add_toggle_placeholders L vals (k # ks) ph =
     (let on = truthy L (dict_get vals k);
          ph1 = AList.update (k @ ''_flag'') (PStr (if on then ''--'' @ k else ''--no-'' @ k)) ph;
          ph2 = AList.update (k @ ''_yn'') (PStr (if on then ''yes'' else ''no'')) ph1;
          ph3 = AList.update (k @ ''_01'') (PStr (if on then ''1'' else ''0'')) ph2
      in add_toggle_placeholders L vals ks ph3)"

definition placeholders :: "'f pylib \<Rightarrow> sysenv \<Rightarrow> 'f ToolSpec \<Rightarrow> 'f pydict \<Rightarrow> 'f pydict" where
  "placeholders L env tool vals =
     (let py = py_exe env;
          od = dict_get vals ''_output_dir'';
          ph = AList.update ''output_dir'' (if truthy L od then od else PStr [])
                (AList.update ''script'' (PStr (case script tool of None \<Rightarrow> [] | Some p \<Rightarrow> p))
                  (AList.update ''python_u'' (PStr (py @ '' -u''))
                    (AList.update ''python'' (PStr py) vals)))
      in add_toggle_placeholders L vals (toggle_names tool) ph)"

text \<open>The loop \<^verbatim>\<open>for k, v in vals.items()\<close> of module mode.\<close>

fun add_inputs :: "'f pylib \<Rightarrow> 'f pydict \<Rightarrow> 'f pyval list \<Rightarrow> 'f pyval list" where
  "add_inputs L [] cmd = cmd"
| "add_inputs L ((k, v) # kvs) cmd =
     (if k = ''_output_dir'' then add_inputs L kvs cmd
      else add_inputs L kvs (cmd @ [PStr (''--'' @ k), PStr (py_str L v)]))"

text \<open>
  The result is a Python list. Its elements are strings, except that module mode appends
  the reserved value \<^verbatim>\<open>vals["_output_dir"]\<close> as it is; \<^verbatim>\<open>collect_values\<close> only ever
  stores a string or \<^verbatim>\<open>None\<close> there.
\<close>

definition build_command ::
  "'f pylib \<Rightarrow> sysenv \<Rightarrow> 'f ToolSpec \<Rightarrow> 'f pydict \<Rightarrow> pyexc + 'f pyval list" where
  "build_command L env tool vals =
     (let py = py_exe env in
      if \<not> isfile env py then Inl (ValueError (''Python service not found: '' @ py))
      else
        let ph = placeholders L env tool vals in
        if runner_mode tool = ''module'' then
          (case parse_module_runner (runner tool) of
             Inl e \<Rightarrow> Inl e
           | Inr (modname, func) \<Rightarrow>
               let cmd = add_inputs L vals
                           [PStr py, PStr ''-u'', PStr ''-m'', PStr modname, PStr ''--func'', PStr func]
               in Inr (if truthy L (dict_get vals ''_output_dir'')
                       then cmd @ [PStr ''--output_dir'', dict_get vals ''_output_dir'']
                       else cmd))
        else if runner_mode tool = ''command'' then
          (if runner tool = [] then Inl (ValueError ''Command template is empty.'')
           else
             (case py_format L ph (runner tool) of
                Inl (KeyError k) \<Rightarrow>
                  Inl (ValueError (''Missing placeholder in template: '' @ py_repr k))
              | Inl e \<Rightarrow> Inl e
              | Inr templ \<Rightarrow> map_sum id (map PStr) (shlex_split templ)))
        else Inl (ValueError (''Unknown runner_mode: '' @ runner_mode tool)))"


section \<open>The parameter form\<close>

subsection \<open>More string operations\<close>

text \<open>\<^verbatim>\<open>str.lower\<close> on code points below 256.\<close>

definition lower_char :: "char \<Rightarrow> char" where
  "lower_char c = (let n = (of_char c :: nat) in
     if (65 \<le> n \<and> n \<le> 90) \<or> (192 \<le> n \<and> n \<le> 222 \<and> n \<noteq> 215) then char_of (n + 32) else c)"

definition lower :: "string \<Rightarrow> string" where
  "lower s = map lower_char s"

text \<open>\<^verbatim>\<open>s.split(c)\<close> for a one-character separator: always at least one part.\<close>

fun split_on :: "char \<Rightarrow> string \<Rightarrow> string list" where
  "split_on c [] = [[]]"
| "split_on c (x # xs) =
     (if x = c then [] # split_on c xs
      else (let r = split_on c xs in (x # hd r) # tl r))"

text \<open>\<^verbatim>\<open>sep.join(xs)\<close>\<close>

fun join :: "string \<Rightarrow> string list \<Rightarrow> string" where
  "join sep [] = []"
| "join sep [x] = x"
| "join sep (x # y # ys) = x @ sep @ join sep (y # ys)"

text \<open>
  \<^verbatim>\<open>str.splitlines\<close>: the line boundaries below code point 256 are LF, VT, FF, CR, FS,
  GS, RS and NEL; CR LF counts as one boundary, and no empty line is added at the end.
\<close>

definition is_linebreak :: "char \<Rightarrow> bool" where
  "is_linebreak c = (let n = (of_char c :: nat) in
     (10 \<le> n \<and> n \<le> 13) \<or> (28 \<le> n \<and> n \<le> 30) \<or> n = 133)"

fun splitlines_from :: "string \<Rightarrow> string \<Rightarrow> string list" where
  "splitlines_from cur [] = (if cur = [] then [] else [cur])"
| "splitlines_from cur [c] = (if is_linebreak c then [cur] else [cur @ [c]])"
| "splitlines_from cur (c # d # cs) =
     (if c = CHR 0x0D \<and> d = CHR 0x0A then cur # splitlines_from [] cs
      else if is_linebreak c then cur # splitlines_from [] (d # cs)
      else splitlines_from (cur @ [c]) (d # cs))"

definition splitlines :: "string \<Rightarrow> string list" where
  "splitlines s = splitlines_from [] s"


text \<open>\<^verbatim>\<open>[s.strip() for s in v.split(",") if s.strip()]\<close>\<close>

definition csv_items :: "string \<Rightarrow> string list" where
  "csv_items v = filter (\<lambda>s. s \<noteq> []) (map strip (split_on CHR '','' v))"

text \<open>\<^verbatim>\<open>type(v).__name__\<close>\<close>

fun type_name :: "'f pyval \<Rightarrow> string" where
  "type_name PNone = ''NoneType''"
| "type_name (PBool b) = ''bool''"
| "type_name (PInt n) = ''int''"
| "type_name (PFloat x) = ''float''"
| "type_name (PStr s) = ''str''"
| "type_name (PList xs) = ''list''"
| "type_name (PDict kvs) = ''dict''"

text \<open>\<^verbatim>\<open>int(v)\<close> and \<^verbatim>\<open>float(v)\<close>; \<open>Inl\<close> carries the message of the exception.\<close>

definition py_int :: "'f pylib \<Rightarrow> 'f pyval \<Rightarrow> string + int" where
  "py_int L v =
     (case v of
        PInt n \<Rightarrow> Inr n
      | PBool b \<Rightarrow> Inr (if b then 1 else 0)
      | PFloat x \<Rightarrow> int_of_float L x
      | PStr s \<Rightarrow> int_of_str L s
      | _ \<Rightarrow> Inl (''int() argument must be a string, a bytes-like object or a real number, not ''
                 @ [CHR 0x27] @ type_name v @ [CHR 0x27]))"

definition py_float :: "'f pylib \<Rightarrow> 'f pyval \<Rightarrow> string + 'f" where
  "py_float L v =
     (case v of
        PFloat x \<Rightarrow> Inr x
      | PInt n \<Rightarrow> float_of_int L n
      | PBool b \<Rightarrow> float_of_int L (if b then 1 else 0)
      | PStr s \<Rightarrow> float_of_str L s
      | _ \<Rightarrow> Inl (''float() argument must be a string or a real number, not ''
                 @ [CHR 0x27] @ type_name v @ [CHR 0x27]))"

text \<open>
  \<^verbatim>\<open>"\n".join(items)\<close> for a list of arbitrary values: a \<^verbatim>\<open>TypeError\<close> at the first
  item that is not a string.
\<close>

fun str_items :: "nat \<Rightarrow> 'f pyval list \<Rightarrow> string + string list" where
  "str_items i [] = Inr []"
| "str_items i (PStr s # vs) = map_sum id ((#) s) (str_items (Suc i) vs)"
| "str_items i (v # vs) =
     Inl (''sequence item '' @ digits i @ '': expected str instance, '' @ type_name v @ '' found'')"

subsection \<open>Widgets and the form\<close>

text \<open>
  The state of each kind of widget that \<^verbatim>\<open>set_tool\<close> creates: the text of a
  \<^verbatim>\<open>QLineEdit\<close>, of the line edit inside a file or folder picker, the value of a
  spin box, the items and current index of a \<^verbatim>\<open>QComboBox\<close>, the rows (text, checked)
  and current index of a \<^verbatim>\<open>CheckableComboBox\<close>, the date of a \<^verbatim>\<open>QDateEdit\<close>, the
  state of a \<^verbatim>\<open>QCheckBox\<close> and the text of a \<^verbatim>\<open>QPlainTextEdit\<close>. Dates are
  kept abstract (type \<open>'d\<close>).
\<close>

datatype ('f, 'd) widget =
    is_LineEdit: LineEdit string
  | is_FileLine: FileLine string
  | is_SpinBox: SpinBox int
  | is_DoubleSpinBox: DoubleSpinBox 'f
  | is_ComboBox: ComboBox "string list" int
  | is_CheckableComboBox: CheckableComboBox "(string \<times> bool) list" int
  | is_DateEdit: DateEdit 'd
  | is_CheckBox: CheckBox bool
  | is_PlainTextEdit: PlainTextEdit string

text \<open>
  What the program uses of Qt beyond storing a value: \<^verbatim>\<open>setValue\<close> of the two spin
  boxes (the value the box holds afterwards, or the message of the exception the
  binding raises), \<^verbatim>\<open>QDate.fromString(s, "yyyy-MM-dd")\<close> (\<open>None\<close> when the date is
  not valid), \<^verbatim>\<open>toString("yyyy-MM-dd")\<close>, and \<^verbatim>\<open>setDate\<close>.
\<close>

record ('f, 'd) qtlib =
  spin_set :: "int \<Rightarrow> string + int"
  dspin_set :: "'f \<Rightarrow> string + 'f"
  date_from_string :: "string \<Rightarrow> 'd option"
  date_to_string :: "'d \<Rightarrow> string"
  date_set :: "'d \<Rightarrow> 'd"

text \<open>
  The part of \<^verbatim>\<open>ToolForm\<close> the operations below read and write: the current tool
  (\<^verbatim>\<open>self.tool\<close>), the dictionary \<^verbatim>\<open>self.fields\<close> from parameter names to widgets,
  the text of the output directory line edit, and the lines appended to the log view.
\<close>

record ('f, 'd) ToolForm =
  form_tool :: "'f ToolSpec option"
  form_fields :: "(string \<times> ('f, 'd) widget) list"
  output_dir :: string
  log_lines :: "string list"

definition is_text_type :: "string \<Rightarrow> bool" where
  "is_text_type t = (t = ''string'' \<or> t = ''file'' \<or> t = ''folder'' \<or> t = ''password'')"

text \<open>\<^verbatim>\<open>QComboBox.currentText\<close> of a combo box that is not editable.\<close>

definition current_text :: "string list \<Rightarrow> int \<Rightarrow> string" where
  "current_text items i = (if 0 \<le> i \<and> i < int (length items) then items ! nat i else [])"

text \<open>\<^verbatim>\<open>QComboBox.findText\<close>: the first index with that text, or -1.\<close>

fun find_text :: "string list \<Rightarrow> string \<Rightarrow> int" where
  "find_text [] s = - 1"
| "find_text (x # xs) s =
     (if x = s then 0 else (let r = find_text xs s in if r < 0 then - 1 else r + 1))"

text \<open>\<^verbatim>\<open>CheckableComboBox.checkedItems\<close> and \<^verbatim>\<open>setCheckedItems\<close>\<close>

definition checkedItems :: "(string \<times> bool) list \<Rightarrow> string list" where
  "checkedItems rows = map fst (filter snd rows)"

definition setCheckedItems :: "string list \<Rightarrow> (string \<times> bool) list \<Rightarrow> (string \<times> bool) list" where
  "setCheckedItems want rows = map (\<lambda>(t, c). (t, t \<in> set want)) rows"

subsection \<open>\<^verbatim>\<open>ToolForm.collect_values\<close>\<close>

text \<open>
  The value read from one widget. Where the widget is not of the kind that \<^verbatim>\<open>set_tool\<close>
  creates for the declared type (possible only when two inputs share a name), the
  method called may not exist or may mean something else; the model stops there.
\<close>

definition collect_value ::
  "('f, 'd) qtlib \<Rightarrow> 'f InputSpec \<Rightarrow> ('f, 'd) widget \<Rightarrow> pyexc + 'f pyval" where
  "collect_value Q spec w =
     (let t = in_type spec;
          other = Inl (NotModelled ''widget of another kind than the declared type'')
      in
      if is_text_type t then
        (case w of FileLine s \<Rightarrow> Inr (PStr (strip s))
                 | LineEdit s \<Rightarrow> Inr (PStr (strip s))
                 | _ \<Rightarrow> other)
      else if t = ''int'' then (case w of SpinBox n \<Rightarrow> Inr (PInt n) | _ \<Rightarrow> other)
      else if t = ''float'' then (case w of DoubleSpinBox x \<Rightarrow> Inr (PFloat x) | _ \<Rightarrow> other)
      else if t = ''enum'' then
        (case w of ComboBox items i \<Rightarrow> Inr (PStr (current_text items i)) | _ \<Rightarrow> other)
      else if t = ''multienum'' then
        (case w of CheckableComboBox rows i \<Rightarrow> Inr (PStr (join '','' (checkedItems rows)))
                 | _ \<Rightarrow> other)
      else if t = ''date'' then
        (case w of DateEdit d \<Rightarrow> Inr (PStr (date_to_string Q d)) | _ \<Rightarrow> other)
      else if t = ''toggle'' then (case w of CheckBox b \<Rightarrow> Inr (PBool b) | _ \<Rightarrow> other)
      else if t = ''list'' then
        (case w of
           PlainTextEdit s \<Rightarrow>
             Inr (PStr (join '','' (filter (\<lambda>ln. ln \<noteq> []) (map strip (splitlines s)))))
         | _ \<Rightarrow> other)
      else (case w of LineEdit s \<Rightarrow> Inr (PStr (strip s)) | _ \<Rightarrow> other))"

fun collect_loop ::
  "('f, 'd) qtlib \<Rightarrow> (string \<times> ('f, 'd) widget) list \<Rightarrow> 'f InputSpec list \<Rightarrow> 'f pydict
     \<Rightarrow> pyexc + 'f pydict" where
  "collect_loop Q fs [] vals = Inr vals"
| "collect_loop Q fs (spec # specs) vals =
     (case map_of fs (in_name spec) of
        None \<Rightarrow> collect_loop Q fs specs vals
      | Some w \<Rightarrow>
          (case collect_value Q spec w of
             Inl e \<Rightarrow> Inl e
           | Inr v \<Rightarrow> collect_loop Q fs specs (AList.update (in_name spec) v vals)))"

definition collect_values :: "('f, 'd) qtlib \<Rightarrow> ('f, 'd) ToolForm \<Rightarrow> pyexc + 'f pydict" where
  "collect_values Q form =
     (case form_tool form of
        None \<Rightarrow> Inr []
      | Some t \<Rightarrow>
          (case collect_loop Q (form_fields form) (inputs t) [] of
             Inl e \<Rightarrow> Inl e
           | Inr vals \<Rightarrow>
               Inr (AList.update ''_output_dir''
                      (let s = strip (output_dir form) in if s = [] then PNone else PStr s)
                      vals)))"

subsection \<open>\<^verbatim>\<open>ToolForm._params_dict\<close>\<close>



subsection \<open>\<^verbatim>\<open>ToolForm._apply_params\<close>\<close>

text \<open>\<^verbatim>\<open>str(v or "")\<close>\<close>

definition str_or_empty :: "'f pylib \<Rightarrow> 'f pyval \<Rightarrow> string" where
  "str_or_empty L v = (if truthy L v then py_str L v else [])"

text \<open>
  The items of a multi-choice or list value: the stripped non-empty parts of a
  comma-separated string, the elements of a list, nothing for any other value.
\<close>

definition value_items :: "'f pyval \<Rightarrow> 'f pyval list" where
  "value_items v =
     (case v of PStr s \<Rightarrow> map PStr (csv_items s) | PList xs \<Rightarrow> xs | _ \<Rightarrow> [])"

text \<open>
  The body of the \<^verbatim>\<open>try\<close> block for one input: the widget after the value has been
  applied, or the text of the exception raised. Every statement that can raise comes
  before the widget is written, so the widget is unchanged when it does.
\<close>

definition apply_value ::
  "'f pylib \<Rightarrow> ('f, 'd) qtlib \<Rightarrow> string \<Rightarrow> 'f pyval \<Rightarrow> ('f, 'd) widget
     \<Rightarrow> string + ('f, 'd) widget" where
  "apply_value L Q t v w =
     (if is_text_type t then
        (if is_FileLine w then Inr (FileLine (str_or_empty L v))
         else if is_LineEdit w then Inr (LineEdit (str_or_empty L v))
         else Inr w)
      else if t = ''int'' \<and> is_SpinBox w then
        (case py_int L v of
           Inl e \<Rightarrow> Inl e
         | Inr k \<Rightarrow> map_sum id SpinBox (spin_set Q k))
      else if t = ''float'' \<and> is_DoubleSpinBox w then
        (case py_float L v of
           Inl e \<Rightarrow> Inl e
         | Inr y \<Rightarrow> map_sum id DoubleSpinBox (dspin_set Q y))
      else if t = ''enum'' \<and> (is_ComboBox w \<or> is_CheckableComboBox w) then
        (case w of
           ComboBox items i \<Rightarrow>
             (let idx = find_text items (py_str L v)
              in Inr (ComboBox items (if idx \<ge> 0 then idx else i)))
         | CheckableComboBox rows i \<Rightarrow>
             (let idx = find_text (map fst rows) (py_str L v)
              in Inr (CheckableComboBox rows (if idx \<ge> 0 then idx else i)))
         | _ \<Rightarrow> Inr w)
      else if t = ''multienum'' \<and> is_CheckableComboBox w then
        (case w of
           CheckableComboBox rows i \<Rightarrow>
             Inr (CheckableComboBox (setCheckedItems (map (py_str L) (value_items v)) rows) i)
         | _ \<Rightarrow> Inr w)
      else if t = ''date'' \<and> is_DateEdit w then
        (case date_from_string Q (py_str L v) of
           None \<Rightarrow> Inr w
         | Some qd \<Rightarrow> Inr (DateEdit (date_set Q qd)))
      else if t = ''toggle'' \<and> is_CheckBox w then
        (let sv = lower (strip (py_str L v));
             on = (v = PBool True \<or> sv = ''1'' \<or> sv = ''true'' \<or> sv = ''yes'' \<or> sv = ''on'')
         in Inr (CheckBox on))
      else if t = ''list'' \<and> is_PlainTextEdit w then
        map_sum id (\<lambda>items. PlainTextEdit (join [CHR 0x0A] items))
          (str_items 0 (value_items v))
      else
        (if is_LineEdit w then Inr (LineEdit (str_or_empty L v)) else Inr w))"

text \<open>
  The loop over the inputs of the tool. A value is applied when the name is a key of
  \<open>values\<close> and a widget is registered under it; an exception is caught, a line is
  appended to the log and the loop goes on.
\<close>

text \<open>\<^verbatim>\<open>t = spec.type or "string"\<close>\<close>

definition declared_type :: "'f InputSpec \<Rightarrow> string" where
  "declared_type spec = (if in_type spec = [] then ''string'' else in_type spec)"

fun apply_loop ::
  "'f pylib \<Rightarrow> ('f, 'd) qtlib \<Rightarrow> 'f pydict \<Rightarrow> 'f InputSpec list \<Rightarrow> ('f, 'd) ToolForm
     \<Rightarrow> ('f, 'd) ToolForm" where
  "apply_loop L Q values [] form = form"
| "apply_loop L Q values (spec # specs) form =
     (case map_of values (in_name spec) of
        None \<Rightarrow> apply_loop L Q values specs form
      | Some v \<Rightarrow>
          (case map_of (form_fields form) (in_name spec) of
             None \<Rightarrow> apply_loop L Q values specs form
           | Some w \<Rightarrow>
               (case apply_value L Q (declared_type spec) v w of
                  Inr w' \<Rightarrow>
                    apply_loop L Q values specs
                      (form\<lparr>form_fields := AList.update (in_name spec) w' (form_fields form)\<rparr>)
                | Inl e \<Rightarrow>
                    apply_loop L Q values specs
                      (form\<lparr>log_lines := log_lines form @ [''[apply] '' @ in_name spec @ '': '' @ e]\<rparr>))))"

definition apply_params ::
  "'f pylib \<Rightarrow> ('f, 'd) qtlib \<Rightarrow> 'f pydict \<Rightarrow> ('f, 'd) ToolForm \<Rightarrow> ('f, 'd) ToolForm" where
  "apply_params L Q values form =
     (case form_tool form of None \<Rightarrow> form | Some t \<Rightarrow> apply_loop L Q values (inputs t) form)"

text \<open>
  The log lines that applying \<open>values\<close> to the widgets \<open>fs\<close> gives: one line for each
  input, in order, whose value raises.
\<close>

definition apply_error_lines ::
  "'f pylib \<Rightarrow> ('f, 'd) qtlib \<Rightarrow> 'f pydict \<Rightarrow> (string \<times> ('f, 'd) widget) list \<Rightarrow> 'f InputSpec list
     \<Rightarrow> string list" where
  "apply_error_lines L Q values fs specs =
     concat (map (\<lambda>spec.
       (case map_of values (in_name spec) of
          None \<Rightarrow> []
        | Some v \<Rightarrow>
            (case map_of fs (in_name spec) of
               None \<Rightarrow> []
             | Some w \<Rightarrow>
                 (case apply_value L Q (declared_type spec) v w of
                    Inl e \<Rightarrow> [''[apply] '' @ in_name spec @ '': '' @ e]
                  | Inr w' \<Rightarrow> [])))) specs)"

subsection \<open>\<^verbatim>\<open>ToolForm._import_params\<close>\<close>

text \<open>
  \<open>data\<close> is what \<^verbatim>\<open>json.load\<close> returned for the chosen file and \<open>answer\<close> is whether
  the user answers Yes, should the question be asked. The outcome is the question asked
  (the two tool names shown in it), if any, and what became of the import. An exception
  ends in the message box \<^verbatim>\<open>Import Failed\<close>, with the form untouched.
\<close>

datatype ('f, 'd) import_result =
    NoToolSelected
  | ImportFailed pyexc
  | Declined
  | Applied "('f, 'd) ToolForm"

definition no_attribute :: "'f pyval \<Rightarrow> string \<Rightarrow> pyexc" where
  "no_attribute v a = AttributeError
     ([CHR 0x27] @ type_name v @ [CHR 0x27] @ '' object has no attribute ''
        @ [CHR 0x27] @ a @ [CHR 0x27])"

text \<open>\<^verbatim>\<open>(meta.get("tool") or "").strip()\<close>\<close>

definition meta_tool_name :: "'f pylib \<Rightarrow> 'f pyval \<Rightarrow> pyexc + string" where
  "meta_tool_name L meta =
     (case meta of
        PDict m \<Rightarrow>
          (let x = dict_get m ''tool'' in
           if truthy L x then
             (case x of PStr s \<Rightarrow> Inr (strip s) | _ \<Rightarrow> Inl (no_attribute x ''strip''))
           else Inr [])
      | _ \<Rightarrow> Inl (no_attribute meta ''get''))"

text \<open>
  The call \<^verbatim>\<open>self._apply_params(values)\<close>. When \<open>values\<close> is not a JSON object and the
  tool has inputs, the membership test of the loop may raise or not, depending on the
  value; that case is not modelled.
\<close>

definition apply_result ::
  "'f pylib \<Rightarrow> ('f, 'd) qtlib \<Rightarrow> 'f pyval \<Rightarrow> ('f, 'd) ToolForm \<Rightarrow> ('f, 'd) import_result" where
  "apply_result L Q values form =
     (case values of
        PDict vs \<Rightarrow> Applied (apply_params L Q vs form)
      | _ \<Rightarrow>
          (case form_tool form of
             None \<Rightarrow> Applied form
           | Some t \<Rightarrow>
               if inputs t = [] then Applied form
               else ImportFailed (NotModelled ''values that are not a JSON object'')))"

definition import_params ::
  "'f pylib \<Rightarrow> ('f, 'd) qtlib \<Rightarrow> 'f pyval \<Rightarrow> bool \<Rightarrow> ('f, 'd) ToolForm
     \<Rightarrow> (string \<times> string) option \<times> ('f, 'd) import_result" where
  "import_params L Q data answer form =
     (case form_tool form of
        None \<Rightarrow> (None, NoToolSelected)
      | Some t \<Rightarrow>
          (case data of
             PDict kvs \<Rightarrow>
               (let meta = (case map_of kvs ''meta'' of None \<Rightarrow> PDict [] | Some m \<Rightarrow> m);
                    values = (case map_of kvs ''values'' of None \<Rightarrow> data | Some v \<Rightarrow> v)
                in
                case meta_tool_name L meta of
                  Inl e \<Rightarrow> (None, ImportFailed e)
                | Inr meta_tool \<Rightarrow>
                    (let cur_tool = strip (tool_name t) in
                     if meta_tool \<noteq> [] \<and> meta_tool \<noteq> cur_tool then
                       (Some (meta_tool, cur_tool),
                        if answer then apply_result L Q values form else Declined)
                     else (None, apply_result L Q values form)))
           | _ \<Rightarrow> (None, ImportFailed (no_attribute data ''get''))))"

subsection \<open>\<^verbatim>\<open>ToolForm._on_run\<close>\<close>

text \<open>
  The outcome of pressing Run: a message box and nothing else, or the command stored in
  \<^verbatim>\<open>_pending_cmd\<close> for \<^verbatim>\<open>_start_run\<close>, which is the only place that starts a process
  and does so only for a non-empty command.
\<close>

datatype 'f run_outcome =
    NoTool
  | CollectRaised pyexc
  | MissingInput string
  | BuildError string
  | RunNotModelled string
  | Pending "'f pyval list"

text \<open>\<^verbatim>\<open>str(e)\<close>\<close>

fun exc_str :: "pyexc \<Rightarrow> string" where
  "exc_str (ValueError m) = m"
| "exc_str (KeyError k) = py_repr k"
| "exc_str (IndexError m) = m"
| "exc_str (TypeError m) = m"
| "exc_str (AttributeError m) = m"
| "exc_str (OverflowError m) = m"
| "exc_str (NotModelled m) = m"

text \<open>\<^verbatim>\<open>v in (None, "", [])\<close> for \<^verbatim>\<open>v = vals.get(spec.name, "")\<close>\<close>

definition missing_value :: "'f pydict \<Rightarrow> string \<Rightarrow> bool" where
  "missing_value vals n =
     (case map_of vals n of
        None \<Rightarrow> True
      | Some v \<Rightarrow> v = PNone \<or> v = PStr [] \<or> v = PList [])"

fun first_missing :: "'f pydict \<Rightarrow> 'f InputSpec list \<Rightarrow> 'f InputSpec option" where
  "first_missing vals [] = None"
| "first_missing vals (spec # specs) =
     (if in_required spec \<and> missing_value vals (in_name spec) then Some spec
      else first_missing vals specs)"

definition label_or_name :: "'f InputSpec \<Rightarrow> string" where
  "label_or_name spec =
     (case in_label spec of None \<Rightarrow> in_name spec | Some l \<Rightarrow> if l = [] then in_name spec else l)"

definition on_run ::
  "'f pylib \<Rightarrow> ('f, 'd) qtlib \<Rightarrow> sysenv \<Rightarrow> ('f, 'd) ToolForm \<Rightarrow> 'f run_outcome" where
  "on_run L Q env form =
     (case form_tool form of
        None \<Rightarrow> NoTool
      | Some t \<Rightarrow>
          (case collect_values Q form of
             Inl e \<Rightarrow> CollectRaised e
           | Inr vals \<Rightarrow>
               (case first_missing vals (inputs t) of
                  Some spec \<Rightarrow>
                    MissingInput ([CHR 0x27] @ label_or_name spec @ [CHR 0x27] @ '' is required.'')
                | None \<Rightarrow>
                    (case build_command L env t vals of
                       Inl (NotModelled m) \<Rightarrow> RunNotModelled m
                     | Inl e \<Rightarrow> BuildError (exc_str e)
                     | Inr cmd \<Rightarrow> Pending cmd))))"

text \<open>The process that \<^verbatim>\<open>_start_run\<close> starts, if any.\<close>

definition started_process :: "'f run_outcome \<Rightarrow> 'f pyval list option" where
  "started_process r = (case r of Pending cmd \<Rightarrow> (if cmd = [] then None else Some cmd) | _ \<Rightarrow> None)"

section \<open>Loading the tool list\<close>
















section \<open>Templates as literal text and placeholders\<close>

text \<open>
  The reading of a command template that the specification has in mind: a sequence of
  literal text and placeholders \<^verbatim>\<open>{name}\<close>. \<open>render\<close> writes such a sequence as a
  template (a brace of the literal text is doubled), \<open>substitute\<close> replaces each
  placeholder by its value as a string and fails at the first one that is not declared.
  A placeholder name is \<open>field_ok\<close> when it is not empty, not a number, and free of the
  characters that start a conversion, a format specification or an attribute or index.
\<close>

datatype piece = Lit string | Field string

fun escape_braces :: "string \<Rightarrow> string" where
  "escape_braces [] = []"
| "escape_braces (c # cs) =
     (if c = CHR ''{'' \<or> c = CHR ''}'' then c # c # escape_braces cs else c # escape_braces cs)"

fun render :: "piece list \<Rightarrow> string" where
  "render [] = []"
| "render (Lit s # ps) = escape_braces s @ render ps"
| "render (Field n # ps) = CHR ''{'' # n @ CHR ''}'' # render ps"

fun field_names :: "piece list \<Rightarrow> string list" where
  "field_names [] = []"
| "field_names (Lit s # ps) = field_names ps"
| "field_names (Field n # ps) = n # field_names ps"

definition field_char :: "char \<Rightarrow> bool" where
  "field_char c = (c \<noteq> CHR ''{'' \<and> c \<noteq> CHR ''}'' \<and> c \<noteq> CHR ''['' \<and> c \<noteq> CHR '':'' \<and>
                   c \<noteq> CHR ''!'' \<and> c \<noteq> CHR ''.'')"

definition field_ok :: "string \<Rightarrow> bool" where
  "field_ok n = (n \<noteq> [] \<and> \<not> list_all is_digit n \<and> list_all field_char n)"

fun substitute :: "'f pylib \<Rightarrow> 'f pydict \<Rightarrow> piece list \<Rightarrow> pyexc + string" where
  "substitute L d [] = Inr []"
| "substitute L d (Lit s # ps) = map_sum id ((@) s) (substitute L d ps)"
| "substitute L d (Field n # ps) =
     (case map_of d n of
        None \<Rightarrow> Inl (KeyError n)
      | Some v \<Rightarrow> map_sum id ((@) (py_str L v)) (substitute L d ps))"

definition first_undeclared :: "'f pydict \<Rightarrow> piece list \<Rightarrow> string option" where
  "first_undeclared d ps = find (\<lambda>n. map_of d n = None) (field_names ps)"

section \<open>Process supervisors\<close>

text \<open>
  A runner is seen through the signals it emits. What the operating system and the
  child do is an input of the model: whether the process could be created, what the pipe
  delivers, the exit code. A child whose output never ends has no such finite
  description; for it \<^verbatim>\<open>run\<close> does not return.
\<close>

datatype event = Started | LineReady string | ErrorReported string | Finished int

subsection \<open>\<^verbatim>\<open>ProcRunner\<close>, on \<^verbatim>\<open>subprocess.Popen\<close>\<close>

text \<open>
  \<open>spawn_error\<close> is the message of the exception \<^verbatim>\<open>Popen\<close> raises, if it does;
  \<open>stdout_lines\<close> are the lines the pipe yields, each with the value of \<^verbatim>\<open>_stop\<close>
  that the loop reads after emitting it; \<open>read_error\<close> is the exception that ends the
  iteration instead of the end of the stream, if one does; \<open>exit_code\<close> is what
  \<^verbatim>\<open>wait\<close> returns.
\<close>

record child =
  spawn_error :: "string option"
  stdout_lines :: "(string \<times> bool) list"
  read_error :: "string option"
  exit_code :: int

text \<open>\<^verbatim>\<open>line.rstrip("\n")\<close>\<close>

definition rstrip_newline :: "string \<Rightarrow> string" where
  "rstrip_newline s = rev (dropWhile (\<lambda>c. c = CHR 0x0A) (rev s))"

text \<open>The loop over the pipe: the events, and whether it was left by \<^verbatim>\<open>break\<close>.\<close>

fun read_loop :: "(string \<times> bool) list \<Rightarrow> event list \<times> bool" where
  "read_loop [] = ([], False)"
| "read_loop ((line, stop) # rest) =
     (if stop then ([LineReady (rstrip_newline line)], True)
      else (let (evs, broke) = read_loop rest in (LineReady (rstrip_newline line) # evs, broke)))"

definition ProcRunner_run :: "child \<Rightarrow> event list" where
  "ProcRunner_run c =
     Started #
     (case spawn_error c of
        Some msg \<Rightarrow> [ErrorReported msg, Finished (- 1)]
      | None \<Rightarrow>
          (let (evs, broke) = read_loop (stdout_lines c) in
           evs @
           (case (if broke then None else read_error c) of
              Some msg \<Rightarrow> [ErrorReported msg, Finished (- 1)]
            | None \<Rightarrow> [Finished (exit_code c)])))"

text \<open>
  \<^verbatim>\<open>ProcRunner.stop\<close>, as the calls it makes on the process. \<open>is_nt\<close> is
  \<^verbatim>\<open>os.name == "nt"\<close>, \<open>has_proc\<close> whether \<^verbatim>\<open>self.proc\<close> is set, \<open>soft_raises\<close>
  whether the first signal call raises, \<open>exited\<close> whether \<^verbatim>\<open>poll\<close> reports an exit
  after the pause, \<open>kill_raises\<close> whether \<^verbatim>\<open>kill\<close> raises. Pauses are in
  milliseconds.
\<close>

datatype action = SendCtrlBreak | Terminate | Sleep nat | Poll | Kill

record stop_env =
  is_nt :: bool
  has_proc :: bool
  soft_raises :: bool
  exited :: bool
  kill_raises :: bool

text \<open>The body of the \<^verbatim>\<open>try\<close>: the calls made, and whether it ended in an exception.\<close>

definition stop_body :: "stop_env \<Rightarrow> action list \<times> bool" where
  "stop_body e =
     (if \<not> has_proc e then ([], False)
      else if is_nt e then
        (if soft_raises e then ([SendCtrlBreak], True)
         else ([SendCtrlBreak, Sleep 400, Kill], kill_raises e))
      else
        (if soft_raises e then ([Terminate], True)
         else if exited e then ([Terminate, Sleep 500, Poll], False)
         else ([Terminate, Sleep 500, Poll, Kill], kill_raises e)))"

text \<open>
  \<^verbatim>\<open>except Exception: pass\<close>: the calls made, and whether an exception reaches the
  caller.
\<close>

definition ProcRunner_stop :: "stop_env \<Rightarrow> action list \<times> bool" where
  "ProcRunner_stop e = (fst (stop_body e), False)"

subsection \<open>\<^verbatim>\<open>QProcRunner\<close>, on \<^verbatim>\<open>QProcess\<close>\<close>

text \<open>
  \<^verbatim>\<open>QProcess\<close> by its documentation: a process that cannot be started gives the
  signal \<^verbatim>\<open>errorOccurred\<close> and no \<^verbatim>\<open>finished\<close>; a process that runs gives
  \<^verbatim>\<open>readyReadStandardOutput\<close> as output arrives and \<^verbatim>\<open>finished\<close> with the exit code
  at its end, also when it is killed. \<^verbatim>\<open>QProcRunner\<close> connects two of the three
  signals.
\<close>

datatype qprocess_run = FailedToStart | Ran "string list" int

datatype qsignal = ReadyRead string | QFinished int | ErrorOccurred

definition qprocess_signals :: "qprocess_run \<Rightarrow> qsignal list" where
  "qprocess_signals r =
     (case r of FailedToStart \<Rightarrow> [ErrorOccurred]
              | Ran chunks code \<Rightarrow> map ReadyRead chunks @ [QFinished code])"

text \<open>\<^verbatim>\<open>_on_ready\<close>, \<^verbatim>\<open>_on_finished\<close>, and no slot for \<^verbatim>\<open>errorOccurred\<close>.\<close>

definition QProcRunner_slot :: "qsignal \<Rightarrow> event list" where
  "QProcRunner_slot g =
     (case g of ReadyRead text \<Rightarrow> map LineReady (splitlines text)
              | QFinished code \<Rightarrow> [Finished code]
              | ErrorOccurred \<Rightarrow> [])"

definition QProcRunner_start :: "string list \<Rightarrow> qprocess_run \<Rightarrow> pyexc + event list" where
  "QProcRunner_start cmd_list r =
     (case cmd_list of
        [] \<Rightarrow> Inl (IndexError ''list index out of range'')
      | program # args \<Rightarrow> Inr (concat (map QProcRunner_slot (qprocess_signals r))))"

datatype qstate = NotRunning | Starting | Running

text \<open>\<^verbatim>\<open>QProcRunner.kill\<close>, which is what the Stop button calls.\<close>

definition QProcRunner_kill :: "qstate \<Rightarrow> action list" where
  "QProcRunner_kill st = (if st \<noteq> NotRunning then [Kill] else [])"

section \<open>Forms as \<^verbatim>\<open>set_tool\<close> builds them, and kind-aware equality\<close>







section \<open>Concrete inputs\<close>

text \<open>
  A runtime library with a toy float type (\<^typ>\<open>unit\<close>, the single value standing for
  \<^verbatim>\<open>0.0\<close>), an environment whose interpreter exists, and a tool in module mode.
\<close>

definition demo_lib :: "unit pylib" where
  "demo_lib = \<lparr>str_float = (\<lambda>_. ''0.0''), bool_float = (\<lambda>_. False),
     str_container = (\<lambda>_. ''[]''), int_of_float = (\<lambda>_. Inr 0),
     int_of_str = (\<lambda>_. Inl ''invalid literal for int()''),
     float_of_int = (\<lambda>_. Inr ()),
     float_of_str = (\<lambda>_. Inl ''could not convert string to float'')\<rparr>"

definition demo_env :: sysenv where
  "demo_env = \<lparr>sys_executable = ''/usr/bin/python3'', isfile = (\<lambda>p. p = ''/usr/bin/python3'')\<rparr>"

definition module_tool :: "string \<Rightarrow> unit ToolSpec" where
  "module_tool r = \<lparr>tool_name = ''Resize'', runner_mode = ''module'', runner = r,
     script = None, output_dir_optional = False, inputs = [], tool_notes = None\<rparr>"

definition demo_vals :: "unit pydict" where
  "demo_vals = [(''width'', PInt 640), (''keep'', PBool True), (''_output_dir'', PStr ''/out'')]"

definition command_tool :: "string \<Rightarrow> unit ToolSpec" where
  "command_tool r = \<lparr>tool_name = ''Convert'', runner_mode = ''command'', runner = r,
     script = Some ''/x/run.py'', output_dir_optional = False, inputs = [], tool_notes = None\<rparr>"



text \<open>
  A toy Qt: dates are their ten-character text, the spin box clamps to its range.
\<close>

definition demo_qt :: "(unit, string) qtlib" where
  "demo_qt = \<lparr>spin_set = (\<lambda>n. Inr (max (- 1000000000) (min 1000000000 n))),
     dspin_set = (\<lambda>x. Inr x),
     date_from_string = (\<lambda>s. if length s = 10 then Some s else None),
     date_to_string = (\<lambda>d. d),
     date_set = (\<lambda>d. d)\<rparr>"

definition input_spec :: "string \<Rightarrow> string \<Rightarrow> string list option \<Rightarrow> unit InputSpec" where
  "input_spec n t cs = \<lparr>in_name = n, in_type = t, in_label = None, in_default = PNone,
     in_choices = cs, in_required = False, in_readonly = False\<rparr>"

definition form_tool_demo :: "unit ToolSpec" where
  "form_tool_demo = \<lparr>tool_name = ''Resize'', runner_mode = ''module'', runner = ''pkg.resize:run'',
     script = None, output_dir_optional = False,
     inputs = [input_spec ''count'' ''int'' None, input_spec ''title'' ''string'' None,
               input_spec ''tags'' ''list'' None],
     tool_notes = None\<rparr>"

definition demo_form :: "(unit, string) ToolForm" where
  "demo_form = \<lparr>form_tool = Some form_tool_demo,
     form_fields = [(''count'', SpinBox 1), (''title'', LineEdit ''old''),
                    (''tags'', PlainTextEdit ''a'')],
     output_dir = [], log_lines = []\<rparr>"

definition bad_values :: "unit pydict" where
  "bad_values = [(''count'', PStr ''many''), (''title'', PStr ''new''), (''tags'', PList [PInt 1])]"

text \<open>A parameter record as exported for a tool named \<open>n\<close>, with one value.\<close>

definition record_for :: "string \<Rightarrow> unit pyval" where
  "record_for n = PDict [(''meta'', PDict [(''tool'', PStr n)]),
                         (''values'', PDict [(''title'', PStr ''new'')])]"




definition toggle_tool :: "string \<Rightarrow> unit ToolSpec" where
  "toggle_tool r = \<lparr>tool_name = ''Scan'', runner_mode = ''command'', runner = r,
     script = Some ''/x/run.py'', output_dir_optional = False,
     inputs = [input_spec ''verbose'' ''toggle'' None, input_spec ''path'' ''string'' None],
     tool_notes = None\<rparr>"






section \<open>Module mode\<close>

lemma add_inputs_eq:
  "add_inputs L kvs cmd =
     cmd @ concat (map (\<lambda>(k, v). [PStr (''--'' @ k), PStr (py_str L v)])
                       (filter (\<lambda>(k, v). k \<noteq> ''_output_dir'') kvs))"
  by (induction kvs arbitrary: cmd) auto

text \<open>
  C1. In module mode every successful compilation has the shape: interpreter, \<^verbatim>\<open>-u\<close>,
  \<^verbatim>\<open>-m\<close>, the module part of the target, \<^verbatim>\<open>--func\<close>, the entry name, then for each
  entry of the value bag other than the reserved key \<^verbatim>\<open>_output_dir\<close>, in order, the two
  tokens \<^verbatim>\<open>--name\<close> and the stringified value, and last, exactly when the reserved value
  is present and non-empty, \<^verbatim>\<open>--output_dir\<close> and that value.
\<close>

theorem module_argv_shape:
  assumes "runner_mode tool = ''module''"
    and "build_command L env tool vals = Inr cmd"
  shows "\<exists>modname func. parse_module_runner (runner tool) = Inr (modname, func) \<and>
     cmd = [PStr (py_exe env), PStr ''-u'', PStr ''-m'', PStr modname, PStr ''--func'', PStr func]
         @ concat (map (\<lambda>(k, v). [PStr (''--'' @ k), PStr (py_str L v)])
                       (filter (\<lambda>(k, v). k \<noteq> ''_output_dir'') vals))
         @ (if truthy L (dict_get vals ''_output_dir'')
            then [PStr ''--output_dir'', dict_get vals ''_output_dir''] else [])"
  using assms
  by (auto simp: build_command_def Let_def add_inputs_eq split: if_splits sum.splits)

theorem module_argv_shape_witness:
  "runner_mode (module_tool ''pkg.resize:run'') = ''module'' \<and>
   build_command demo_lib demo_env (module_tool ''pkg.resize:run'') demo_vals =
     Inr [PStr ''/usr/bin/python3'', PStr ''-u'', PStr ''-m'', PStr ''pkg.resize'',
          PStr ''--func'', PStr ''run'', PStr ''--width'', PStr ''640'',
          PStr ''--keep'', PStr ''True'', PStr ''--output_dir'', PStr ''/out''] \<and>
   (\<exists>modname func.
      parse_module_runner (runner (module_tool ''pkg.resize:run'')) = Inr (modname, func) \<and>
      [PStr ''/usr/bin/python3'', PStr ''-u'', PStr ''-m'', PStr ''pkg.resize'',
       PStr ''--func'', PStr ''run'', PStr ''--width'', PStr ''640'',
       PStr ''--keep'', PStr ''True'', PStr ''--output_dir'', PStr ''/out''] =
      [PStr (py_exe demo_env), PStr ''-u'', PStr ''-m'', PStr modname, PStr ''--func'', PStr func]
        @ concat (map (\<lambda>(k, v). [PStr (''--'' @ k), PStr (py_str demo_lib v)])
                      (filter (\<lambda>(k, v). k \<noteq> ''_output_dir'') demo_vals))
        @ (if truthy demo_lib (dict_get demo_vals ''_output_dir'')
           then [PStr ''--output_dir'', dict_get demo_vals ''_output_dir''] else []))"
proof -
  have m: "runner_mode (module_tool ''pkg.resize:run'') = ''module''"
    by (simp add: module_tool_def)
  have b: "build_command demo_lib demo_env (module_tool ''pkg.resize:run'') demo_vals =
     Inr [PStr ''/usr/bin/python3'', PStr ''-u'', PStr ''-m'', PStr ''pkg.resize'',
          PStr ''--func'', PStr ''run'', PStr ''--width'', PStr ''640'',
          PStr ''--keep'', PStr ''True'', PStr ''--output_dir'', PStr ''/out'']"
    by code_simp
  from module_argv_shape [OF m b] m b show ?thesis by simp
qed

text \<open>
  C6, as stated, fails: a target with an empty module part compiles. The colon is
  present, so \<^verbatim>\<open>parse_module_runner\<close> returns the pair with the empty string and the
  argument vector carries an empty token after \<^verbatim>\<open>-m\<close>.
\<close>

theorem empty_module_part_counterexample:
  "parse_module_runner '':run'' = Inr ([], ''run'') \<and>
   build_command demo_lib demo_env (module_tool '':run'') [] =
     Inr [PStr ''/usr/bin/python3'', PStr ''-u'', PStr ''-m'', PStr [],
          PStr ''--func'', PStr ''run'']"
  by code_simp

text \<open>
  C6, amended. In module mode, with the interpreter in place, compilation fails with the
  validation error of \<^verbatim>\<open>parse_module_runner\<close> when the target contains no colon, and
  succeeds whenever it contains one, whatever the two parts are.
\<close>

theorem module_target_validation:
  assumes "runner_mode tool = ''module''"
    and "isfile env (py_exe env)"
  shows "(CHR '':'' \<notin> set (runner tool) \<longrightarrow>
            build_command L env tool vals =
              Inl (ValueError (''Runner must be 'pkg.module:function'' @ [CHR 0x27]))) \<and>
         (CHR '':'' \<in> set (runner tool) \<longrightarrow> (\<exists>cmd. build_command L env tool vals = Inr cmd))"
  using assms
  by (simp add: build_command_def Let_def parse_module_runner_def)

theorem module_target_validation_witness:
  "runner_mode (module_tool ''pkg.resize'') = ''module'' \<and>
   isfile demo_env (py_exe demo_env) \<and>
   CHR '':'' \<notin> set (runner (module_tool ''pkg.resize'')) \<and>
   build_command demo_lib demo_env (module_tool ''pkg.resize'') demo_vals =
     Inl (ValueError (''Runner must be 'pkg.module:function'' @ [CHR 0x27])) \<and>
   CHR '':'' \<in> set (runner (module_tool ''pkg.resize:run'')) \<and>
   (\<exists>cmd. build_command demo_lib demo_env (module_tool ''pkg.resize:run'') demo_vals = Inr cmd)"
proof -
  have m: "runner_mode (module_tool r) = ''module''" for r
    by (simp add: module_tool_def)
  have f: "isfile demo_env (py_exe demo_env)"
    by (simp add: demo_env_def py_exe_def)
  have n: "CHR '':'' \<notin> set (runner (module_tool ''pkg.resize''))"
    by (simp add: module_tool_def)
  have y: "CHR '':'' \<in> set (runner (module_tool ''pkg.resize:run''))"
    by (simp add: module_tool_def)
  from module_target_validation [OF m f, of "''pkg.resize''" demo_lib demo_vals]
       module_target_validation [OF m f, of "''pkg.resize:run''" demo_lib demo_vals]
       m f n y
  show ?thesis by blast
qed

section \<open>Command-line mode: tokenization\<close>











section \<open>Applying imported values\<close>

lemma apply_loop_frame:
  "form_tool (apply_loop L Q values specs form) = form_tool form \<and>
   output_dir (apply_loop L Q values specs form) = output_dir form"
  by (induction specs arbitrary: form) (auto split: option.splits sum.splits)

lemma apply_loop_other:
  "n \<notin> in_name ` set specs \<Longrightarrow>
   map_of (form_fields (apply_loop L Q values specs form)) n = map_of (form_fields form) n"
  by (induction specs arbitrary: form) (auto split: option.splits sum.splits simp: update_conv')

lemma apply_loop_field:
  "distinct (map in_name specs) \<Longrightarrow> spec \<in> set specs \<Longrightarrow>
   map_of (form_fields (apply_loop L Q values specs form)) (in_name spec) =
     (case map_of values (in_name spec) of
        None \<Rightarrow> map_of (form_fields form) (in_name spec)
      | Some v \<Rightarrow>
          (case map_of (form_fields form) (in_name spec) of
             None \<Rightarrow> None
           | Some w \<Rightarrow>
               Some (case apply_value L Q (declared_type spec) v w of Inr w' \<Rightarrow> w' | Inl e \<Rightarrow> w)))"
proof (induction specs arbitrary: form)
  case Nil
  then show ?case by simp
next
  case (Cons s specs)
  show ?case
  proof (cases "spec = s")
    case True
    with Cons.prems have "in_name s \<notin> in_name ` set specs" by auto
    from apply_loop_other [OF this] True show ?thesis
      by (auto split: option.splits sum.splits simp: update_conv')
  next
    case False
    with Cons.prems have in_rest: "spec \<in> set specs" and d: "distinct (map in_name specs)"
      by auto
    from Cons.prems in_rest have ne: "in_name spec \<noteq> in_name s"
      by (metis distinct.simps(2) imageI list.simps(9) set_map)
    from Cons.IH [OF d in_rest] ne show ?thesis
      by (auto split: option.splits sum.splits simp: update_conv')
  qed
qed

lemma apply_error_lines_cong:
  "\<forall>spec\<in>set specs. map_of fs (in_name spec) = map_of fs' (in_name spec) \<Longrightarrow>
   apply_error_lines L Q values fs specs = apply_error_lines L Q values fs' specs"
  by (induction specs) (auto simp: apply_error_lines_def cong: option.case_cong)

lemma apply_error_lines_Cons:
  "apply_error_lines L Q values fs (s # specs) =
     (case map_of values (in_name s) of
        None \<Rightarrow> []
      | Some v \<Rightarrow>
          (case map_of fs (in_name s) of
             None \<Rightarrow> []
           | Some w \<Rightarrow>
               (case apply_value L Q (declared_type s) v w of
                  Inl e \<Rightarrow> [''[apply] '' @ in_name s @ '': '' @ e]
                | Inr w' \<Rightarrow> []))) @ apply_error_lines L Q values fs specs"
  by (simp add: apply_error_lines_def)

lemma apply_loop_log:
  "distinct (map in_name specs) \<Longrightarrow>
   log_lines (apply_loop L Q values specs form) =
     log_lines form @ apply_error_lines L Q values (form_fields form) specs"
proof (induction specs arbitrary: form)
  case Nil
  then show ?case by (simp add: apply_error_lines_def)
next
  case (Cons s specs)
  then have d: "distinct (map in_name specs)" and nin: "in_name s \<notin> in_name ` set specs"
    by auto
  have same: "apply_error_lines L Q values (AList.update (in_name s) w' (form_fields form)) specs
      = apply_error_lines L Q values (form_fields form) specs" for w'
  proof (intro apply_error_lines_cong ballI)
    fix spec assume "spec \<in> set specs"
    with nin have "in_name spec \<noteq> in_name s" by (metis imageI)
    then show "map_of (AList.update (in_name s) w' (form_fields form)) (in_name spec)
        = map_of (form_fields form) (in_name spec)"
      by (simp add: update_conv')
  qed
  show ?case
  proof (cases "map_of values (in_name s)")
    case None
    then show ?thesis using Cons.IH [OF d] by (simp add: apply_error_lines_Cons)
  next
    case v: (Some v)
    show ?thesis
    proof (cases "map_of (form_fields form) (in_name s)")
      case None
      then show ?thesis using v Cons.IH [OF d] by (simp add: apply_error_lines_Cons)
    next
      case w: (Some w)
      show ?thesis
      proof (cases "apply_value L Q (declared_type s) v w")
        case (Inl e)
        then show ?thesis using v w Cons.IH [OF d]
          by (simp add: apply_error_lines_Cons)
      next
        case (Inr w')
        then show ?thesis using v w Cons.IH [OF d] same [of w']
          by (simp add: apply_error_lines_Cons)
      qed
    qed
  qed
qed

lemma apply_error_lines_member:
  "spec \<in> set specs \<Longrightarrow> map_of values (in_name spec) = Some v \<Longrightarrow>
   map_of fs (in_name spec) = Some w \<Longrightarrow> apply_value L Q (declared_type spec) v w = Inl e \<Longrightarrow>
   (''[apply] '' @ in_name spec @ '': '' @ e) \<in> set (apply_error_lines L Q values fs specs)"
  by (induction specs) (auto simp: apply_error_lines_Cons)

text \<open>
  C10. \<^verbatim>\<open>_apply_params\<close> always returns: the model is a total function whose result
  is the form. For a tool with distinct input names, each input that has a value and a
  widget is handled on its own: its widget becomes what applying its value gives, or
  stays as it was when that raises, whatever happens to the other inputs; every value
  that raises leaves its line \<^verbatim>\<open>[apply] name: error\<close> in the log, in the order of the
  inputs; nothing else of the form changes.
\<close>

theorem apply_params_best_effort:
  assumes "form_tool form = Some t"
    and "distinct (map in_name (inputs t))"
  shows "(\<forall>spec\<in>set (inputs t). \<forall>v w.
            map_of values (in_name spec) = Some v \<longrightarrow>
            map_of (form_fields form) (in_name spec) = Some w \<longrightarrow>
            map_of (form_fields (apply_params L Q values form)) (in_name spec) =
              Some (case apply_value L Q (declared_type spec) v w of Inr w' \<Rightarrow> w' | Inl e \<Rightarrow> w) \<and>
            (\<forall>e. apply_value L Q (declared_type spec) v w = Inl e \<longrightarrow>
               (''[apply] '' @ in_name spec @ '': '' @ e)
                 \<in> set (log_lines (apply_params L Q values form)))) \<and>
         (\<forall>n. n \<notin> in_name ` set (inputs t) \<longrightarrow>
            map_of (form_fields (apply_params L Q values form)) n = map_of (form_fields form) n) \<and>
         log_lines (apply_params L Q values form) =
           log_lines form @ apply_error_lines L Q values (form_fields form) (inputs t) \<and>
         form_tool (apply_params L Q values form) = form_tool form \<and>
         output_dir (apply_params L Q values form) = output_dir form"
proof -
  have eq: "apply_params L Q values form = apply_loop L Q values (inputs t) form"
    using assms(1) by (simp add: apply_params_def)
  have lg: "log_lines (apply_params L Q values form) =
           log_lines form @ apply_error_lines L Q values (form_fields form) (inputs t)"
    unfolding eq by (rule apply_loop_log [OF assms(2)])
  have fld: "map_of (form_fields (apply_params L Q values form)) (in_name spec) =
              Some (case apply_value L Q (declared_type spec) v w of Inr w' \<Rightarrow> w' | Inl e \<Rightarrow> w)"
    if a: "spec \<in> set (inputs t)" and b: "map_of values (in_name spec) = Some v"
      and c: "map_of (form_fields form) (in_name spec) = Some w" for spec v w
    using apply_loop_field [OF assms(2) a, of L Q "values" form] b c
    unfolding eq by simp
  have err: "(''[apply] '' @ in_name spec @ '': '' @ e) \<in> set (log_lines (apply_params L Q values form))"
    if "spec \<in> set (inputs t)" "map_of values (in_name spec) = Some v"
       "map_of (form_fields form) (in_name spec) = Some w"
       "apply_value L Q (declared_type spec) v w = Inl e" for spec v w e
    using apply_error_lines_member [OF that] unfolding lg by simp
  have oth: "map_of (form_fields (apply_params L Q values form)) n = map_of (form_fields form) n"
    if "n \<notin> in_name ` set (inputs t)" for n
    unfolding eq by (rule apply_loop_other [OF that])
  have fr: "form_tool (apply_params L Q values form) = form_tool form"
    "output_dir (apply_params L Q values form) = output_dir form"
    unfolding eq by (simp_all add: apply_loop_frame)
  from lg fld err oth fr show ?thesis by blast
qed

theorem apply_params_best_effort_witness:
  "form_tool demo_form = Some form_tool_demo \<and>
   distinct (map in_name (inputs form_tool_demo)) \<and>
   apply_value demo_lib demo_qt ''int'' (PStr ''many'') (SpinBox 1) =
     Inl ''invalid literal for int()'' \<and>
   map_of (form_fields (apply_params demo_lib demo_qt bad_values demo_form)) ''count'' =
     Some (SpinBox 1) \<and>
   map_of (form_fields (apply_params demo_lib demo_qt bad_values demo_form)) ''title'' =
     Some (LineEdit ''new'') \<and>
   map_of (form_fields (apply_params demo_lib demo_qt bad_values demo_form)) ''tags'' =
     Some (PlainTextEdit ''a'') \<and>
   log_lines (apply_params demo_lib demo_qt bad_values demo_form) =
     [''[apply] count: invalid literal for int()'',
      ''[apply] tags: sequence item 0: expected str instance, int found'']"
proof -
  have t: "form_tool demo_form = Some form_tool_demo"
    by (simp add: demo_form_def)
  have d: "distinct (map in_name (inputs form_tool_demo))"
    by (simp add: form_tool_demo_def input_spec_def)
  have a: "apply_value demo_lib demo_qt ''int'' (PStr ''many'') (SpinBox 1) =
     Inl ''invalid literal for int()''"
    by code_simp
  have l: "log_lines demo_form @
      apply_error_lines demo_lib demo_qt bad_values (form_fields demo_form) (inputs form_tool_demo) =
     [''[apply] count: invalid literal for int()'',
      ''[apply] tags: sequence item 0: expected str instance, int found'']"
    by code_simp
  have f: "map_of (form_fields (apply_params demo_lib demo_qt bad_values demo_form)) ''count'' =
     Some (SpinBox 1)"
    "map_of (form_fields (apply_params demo_lib demo_qt bad_values demo_form)) ''title'' =
     Some (LineEdit ''new'')"
    "map_of (form_fields (apply_params demo_lib demo_qt bad_values demo_form)) ''tags'' =
     Some (PlainTextEdit ''a'')"
    by code_simp+
  from apply_params_best_effort [OF t d, of bad_values demo_lib demo_qt]
  have "log_lines (apply_params demo_lib demo_qt bad_values demo_form) =
     log_lines demo_form @
      apply_error_lines demo_lib demo_qt bad_values (form_fields demo_form) (inputs form_tool_demo)"
    by blast
  with l t d a f show ?thesis by simp
qed

section \<open>Import and the tool-name guard\<close>

text \<open>
  C8, as stated, fails: the record declares the tool name \<^verbatim>\<open>Resize\<close> followed by a
  space, the current tool is named \<^verbatim>\<open>Resize\<close>. The names differ, no question is
  asked, and the value is applied although the answer would have been No.
\<close>

theorem trimmed_name_counterexample:
  "tool_name form_tool_demo \<noteq> ''Resize '' \<and>
   import_params demo_lib demo_qt (record_for ''Resize '') False demo_form =
     (None, Applied (apply_params demo_lib demo_qt [(''title'', PStr ''new'')] demo_form)) \<and>
   map_of (form_fields demo_form) ''title'' = Some (LineEdit ''old'') \<and>
   map_of (form_fields (apply_params demo_lib demo_qt [(''title'', PStr ''new'')] demo_form)) ''title'' =
     Some (LineEdit ''new'')"
  by code_simp

text \<open>
  C8, amended. The guard compares the names after trimming and skips an empty declared
  name. For a record whose \<^verbatim>\<open>meta.tool\<close> is the string \<open>s\<close>: when \<open>s\<close> trimmed is not
  empty and differs from the trimmed name of the current tool, the question is asked,
  and the values are applied on Yes and nothing is applied otherwise; when \<open>s\<close> trimmed is
  empty or equal to the trimmed current name, the values are applied without a question.
\<close>

theorem import_mismatch_confirmation:
  assumes "form_tool form = Some t"
    and "map_of kvs ''meta'' = Some (PDict m)"
    and "map_of m ''tool'' = Some (PStr s)"
    and "map_of kvs ''values'' = Some vs"
  shows "(strip s \<noteq> [] \<and> strip s \<noteq> strip (tool_name t) \<longrightarrow>
            import_params L Q (PDict kvs) answer form =
              (Some (strip s, strip (tool_name t)),
               if answer then apply_result L Q vs form else Declined)) \<and>
         (strip s = [] \<or> strip s = strip (tool_name t) \<longrightarrow>
            import_params L Q (PDict kvs) answer form = (None, apply_result L Q vs form))"
proof -
  have "meta_tool_name L (PDict m) = Inr (strip s)"
    using assms(3) by (cases "s = []") (simp_all add: meta_tool_name_def dict_get_def strip_def lstrip_def rstrip_def)
  then show ?thesis
    using assms(1,2,4) by (simp add: import_params_def Let_def)
qed

theorem import_mismatch_confirmation_witness:
  "form_tool demo_form = Some form_tool_demo \<and>
   strip ''Convert'' \<noteq> [] \<and> strip ''Convert'' \<noteq> strip (tool_name form_tool_demo) \<and>
   import_params demo_lib demo_qt (record_for ''Convert'') False demo_form =
     (Some (''Convert'', ''Resize''), Declined) \<and>
   import_params demo_lib demo_qt (record_for ''Convert'') True demo_form =
     (Some (''Convert'', ''Resize''),
      Applied (apply_params demo_lib demo_qt [(''title'', PStr ''new'')] demo_form))"
proof -
  have t: "form_tool demo_form = Some form_tool_demo"
    by (simp add: demo_form_def)
  have k: "map_of [(''meta'', PDict [(''tool'', PStr ''Convert'')]),
                   (''values'', PDict [(''title'', PStr ''new'')])] ''meta''
             = Some (PDict [(''tool'', PStr ''Convert'' :: unit pyval)])"
    "map_of [(''tool'', PStr ''Convert'' :: unit pyval)] ''tool'' = Some (PStr ''Convert'')"
    "map_of [(''meta'', PDict [(''tool'', PStr ''Convert'')]),
             (''values'', PDict [(''title'', PStr ''new'')])] ''values''
       = Some (PDict [(''title'', PStr ''new'' :: unit pyval)])"
    by simp_all
  have n: "strip ''Convert'' = ''Convert''" "strip (tool_name form_tool_demo) = ''Resize''"
    by code_simp+
  have a: "apply_result demo_lib demo_qt (PDict [(''title'', PStr ''new'')]) demo_form =
      Applied (apply_params demo_lib demo_qt [(''title'', PStr ''new'')] demo_form)"
    by (simp add: apply_result_def)
  from import_mismatch_confirmation [OF t k, of demo_lib demo_qt False]
       import_mismatch_confirmation [OF t k, of demo_lib demo_qt True] t n a
  show ?thesis by (simp add: record_for_def)
qed

section \<open>Unknown fields in the tool list\<close>





section \<open>Command-line mode: placeholders\<close>

lemma map_sum_cons_app: "map_sum id ((#) c) (map_sum id ((@) s) r) = map_sum id ((@) (c # s)) r"
  by (cases r) auto

lemma fmt_escape:
  "py_format L d (escape_braces s @ rest) = map_sum id ((@) s) (py_format L d rest)"
proof (induction s)
  case Nil
  show ?case by (cases "py_format L d rest") auto
next
  case (Cons c s)
  then show ?case by (cases "py_format L d rest") auto
qed

lemma parse_field_ok:
  "list_all field_char n \<Longrightarrow> parse_field acc (n @ CHR ''}'' # rest) = Inr (acc @ n, rest)"
  by (induction n arbitrary: acc) (auto simp: field_char_def)

lemma fmt_field:
  assumes "field_ok n"
  shows "py_format L d (CHR ''{'' # n @ CHR ''}'' # rest) =
     (case map_of d n of
        None \<Rightarrow> Inl (KeyError n)
      | Some v \<Rightarrow> map_sum id ((@) (py_str L v)) (py_format L d rest))"
proof -
  from assms obtain c n' where n: "n = c # n'" and c: "c \<noteq> CHR ''{''"
    by (cases n) (auto simp: field_ok_def field_char_def)
  have p: "parse_field [] (n @ CHR ''}'' # rest) = Inr (n, rest)"
    using parse_field_ok [of n "[]" rest] assms by (simp add: field_ok_def)
  have dot: "CHR ''.'' \<notin> set n"
    using assms by (auto simp: field_ok_def field_char_def list_all_iff)
  have g: "get_field L d n = (case map_of d n of None \<Rightarrow> Inl (KeyError n) | Some v \<Rightarrow> Inr (py_str L v))"
    using assms dot by (simp add: get_field_def field_ok_def)
  have "py_format L d (CHR ''{'' # c # n' @ CHR ''}'' # rest) =
      (case parse_field [] (c # n' @ CHR ''}'' # rest) of
         Inl e \<Rightarrow> Inl e
       | Inr (nm, rest') \<Rightarrow>
           (case get_field L d nm of
              Inl e \<Rightarrow> Inl e
            | Inr v \<Rightarrow> map_sum id ((@) v) (py_format L d rest')))"
    using c by (simp del: parse_field.simps)
  with p g n show ?thesis by (simp del: parse_field.simps split: option.splits)
qed

lemma format_render:
  "list_all field_ok (field_names ps) \<Longrightarrow> py_format L d (render ps) = substitute L d ps"
proof (induction ps)
  case Nil
  then show ?case by simp
next
  case (Cons p ps)
  then show ?case
    by (cases p) (auto simp: fmt_escape fmt_field simp del: py_format.simps split: option.splits)
qed

lemma substitute_declared:
  "first_undeclared d ps = None \<Longrightarrow> \<exists>s. substitute L d ps = Inr s"
proof (induction ps)
  case Nil
  then show ?case by simp
next
  case (Cons p ps)
  then show ?case
    by (cases p) (auto simp: first_undeclared_def split: if_splits)
qed

lemma substitute_undeclared:
  "first_undeclared d ps = Some k \<Longrightarrow> substitute L d ps = Inl (KeyError k)"
proof (induction ps)
  case Nil
  then show ?case by (simp add: first_undeclared_def)
next
  case (Cons p ps)
  then show ?case
    by (cases p) (auto simp: first_undeclared_def split: if_splits)
qed

lemma dom_add_toggles:
  "fst ` set (add_toggle_placeholders L vals ks ph) =
     fst ` set ph \<union> (\<Union>k\<in>set ks. {k @ ''_flag'', k @ ''_yn'', k @ ''_01''})"
  by (induction ks arbitrary: ph) (auto simp: Let_def dom_update)

lemma dom_placeholders:
  "fst ` set (placeholders L env tool vals) =
     fst ` set vals \<union> {''python'', ''python_u'', ''script'', ''output_dir''}
       \<union> (\<Union>k\<in>set (toggle_names tool). {k @ ''_flag'', k @ ''_yn'', k @ ''_01''})"
  by (auto simp: placeholders_def Let_def dom_add_toggles dom_update)

lemma py_repr_plain:
  "list_all (\<lambda>c. is_printable c \<and> c \<noteq> CHR 0x27 \<and> c \<noteq> CHR 0x5C) k \<Longrightarrow>
   py_repr k = [CHR 0x27] @ k @ [CHR 0x27]"
proof -
  assume a: "list_all (\<lambda>c. is_printable c \<and> c \<noteq> CHR 0x27 \<and> c \<noteq> CHR 0x5C) k"
  have p9: "\<not> is_printable (CHR 0x09)" "\<not> is_printable (CHR 0x0A)" "\<not> is_printable (CHR 0x0D)"
    by (simp_all add: is_printable_def)
  have "concat (map (repr_char (CHR 0x27)) k) = k"
    using a p9 by (induction k) (auto simp: repr_char_def)
  moreover have "CHR 0x27 \<notin> set k" using a by (auto simp: list_all_iff)
  ultimately show ?thesis by (simp add: py_repr_def Let_def)
qed


text \<open>
  C5, as stated, fails: the only placeholder of the template is declared, yet
  compilation fails, because the substituted string has an unbalanced quote.
\<close>

theorem unbalanced_quote_counterexample:
  "map_of (placeholders demo_lib demo_env (command_tool ''echo {name}'') [(''name'', PStr ''it's'')])
     ''name'' = Some (PStr ''it's'') \<and>
   build_command demo_lib demo_env (command_tool ''echo {name}'') [(''name'', PStr ''it's'')] =
     Inl (ValueError ''No closing quotation'')"
  by code_simp

text \<open>
  C5, amended. In command-line mode, with the interpreter in place: an empty template
  fails with \<^verbatim>\<open>Command template is empty.\<close>; for a template of literal text and
  placeholders, if a placeholder is not declared, compilation fails with
  \<^verbatim>\<open>Missing placeholder in template:\<close> followed by the first such name as \<^verbatim>\<open>repr\<close>
  writes it (the name in single quotes, for a name of printable characters without quote
  or backslash); if all are declared, substitution succeeds and compilation gives what
  the word splitting of the substituted string gives, tokens or its error. The declared
  names are the keys of the value bag, \<^verbatim>\<open>python\<close>, \<^verbatim>\<open>python_u\<close>, \<^verbatim>\<open>script\<close>,
  \<^verbatim>\<open>output_dir\<close> and the three keys of each toggle. A compilation error ends
  \<^verbatim>\<open>_on_run\<close> in the error box, with no command left to start.
\<close>

theorem command_compilation:
  assumes "runner_mode tool = ''command''"
    and "isfile env (py_exe env)"
  shows "(runner tool = [] \<longrightarrow>
            build_command L env tool vals = Inl (ValueError ''Command template is empty.'')) \<and>
         (\<forall>ps. runner tool = render ps \<and> runner tool \<noteq> [] \<and> list_all field_ok (field_names ps) \<longrightarrow>
            (case first_undeclared (placeholders L env tool vals) ps of
               Some k \<Rightarrow>
                 build_command L env tool vals =
                   Inl (ValueError (''Missing placeholder in template: '' @ py_repr k))
             | None \<Rightarrow>
                 (\<exists>s. substitute L (placeholders L env tool vals) ps = Inr s \<and>
                   build_command L env tool vals = map_sum id (map PStr) (shlex_split s)))) \<and>
         (\<forall>k. list_all (\<lambda>c. is_printable c \<and> c \<noteq> CHR 0x27 \<and> c \<noteq> CHR 0x5C) k \<longrightarrow>
            py_repr k = [CHR 0x27] @ k @ [CHR 0x27]) \<and>
         (\<forall>n. map_of (placeholders L env tool vals) n \<noteq> None \<longleftrightarrow>
            n \<in> fst ` set vals \<union> {''python'', ''python_u'', ''script'', ''output_dir''}
                  \<union> (\<Union>k\<in>set (toggle_names tool). {k @ ''_flag'', k @ ''_yn'', k @ ''_01''})) \<and>
         (\<forall>Q form m. form_tool form = Some tool \<and> collect_values Q form = Inr vals \<and>
            first_missing vals (inputs tool) = None \<and>
            build_command L env tool vals = Inl (ValueError m) \<longrightarrow>
            on_run L Q env form = BuildError m \<and> started_process (on_run L Q env form) = None)"
  (is "?A \<and> ?B \<and> ?C \<and> ?D \<and> ?E")
proof -
  have nm: "runner_mode tool \<noteq> ''module''"
    using assms(1) by simp
  have e: "build_command L env tool vals = Inl (ValueError ''Command template is empty.'')"
    if "runner tool = []"
    using that assms nm by (simp add: build_command_def Let_def)
  have b: "build_command L env tool vals =
      (case py_format L (placeholders L env tool vals) (runner tool) of
         Inl (KeyError k) \<Rightarrow> Inl (ValueError (''Missing placeholder in template: '' @ py_repr k))
       | Inl e \<Rightarrow> Inl e
       | Inr templ \<Rightarrow> map_sum id (map PStr) (shlex_split templ))"
    if "runner tool \<noteq> []"
    using that assms nm by (simp add: build_command_def Let_def)
  have p: "(case first_undeclared (placeholders L env tool vals) ps of
               Some k \<Rightarrow>
                 build_command L env tool vals =
                   Inl (ValueError (''Missing placeholder in template: '' @ py_repr k))
             | None \<Rightarrow>
                 (\<exists>s. substitute L (placeholders L env tool vals) ps = Inr s \<and>
                   build_command L env tool vals = map_sum id (map PStr) (shlex_split s)))"
    if r: "runner tool = render ps" and ne: "runner tool \<noteq> []"
      and ok: "list_all field_ok (field_names ps)" for ps
  proof (cases "first_undeclared (placeholders L env tool vals) ps")
    case None
    from substitute_declared [OF None, of L] obtain s where
      s: "substitute L (placeholders L env tool vals) ps = Inr s" by blast
    with b [OF ne] r format_render [OF ok, of L "placeholders L env tool vals"] None
    show ?thesis by simp
  next
    case (Some k)
    from substitute_undeclared [OF Some, of L] b [OF ne] r
         format_render [OF ok, of L "placeholders L env tool vals"] Some
    show ?thesis by simp
  qed
  have d: "map_of (placeholders L env tool vals) n \<noteq> None \<longleftrightarrow>
            n \<in> fst ` set vals \<union> {''python'', ''python_u'', ''script'', ''output_dir''}
                  \<union> (\<Union>k\<in>set (toggle_names tool). {k @ ''_flag'', k @ ''_yn'', k @ ''_01''})" for n
  proof -
    have "map_of (placeholders L env tool vals) n \<noteq> None \<longleftrightarrow>
        n \<in> fst ` set (placeholders L env tool vals)"
      by (simp add: map_of_eq_None_iff)
    then show ?thesis unfolding dom_placeholders .
  qed
  have o: "on_run L Q env form = BuildError m \<and> started_process (on_run L Q env form) = None"
    if "form_tool form = Some tool" "collect_values Q form = Inr vals"
       "first_missing vals (inputs tool) = None" "build_command L env tool vals = Inl (ValueError m)"
    for Q :: "('a, 'b) qtlib" and form m
    using that by (simp add: on_run_def started_process_def)
  have "?A" using e by blast
  moreover have "?B" using p by blast
  moreover have "?C" using py_repr_plain by blast
  moreover have "?D" using d by blast
  moreover have "?E" using o by blast
  ultimately show ?thesis by (intro conjI)
qed



theorem command_compilation_witness:
  "runner_mode (toggle_tool ''{python} --in {input}'') = ''command'' \<and>
   isfile demo_env (py_exe demo_env) \<and>
   first_undeclared
     (placeholders demo_lib demo_env (toggle_tool ''{python} --in {input}'')
        [(''verbose'', PBool True), (''path'', PStr ''/tmp/a''), (''_output_dir'', PNone)])
     [Field ''python'', Lit '' --in '', Field ''input''] = Some ''input'' \<and>
   build_command demo_lib demo_env (toggle_tool ''{python} --in {input}'')
     [(''verbose'', PBool True), (''path'', PStr ''/tmp/a''), (''_output_dir'', PNone)] =
     Inl (ValueError (''Missing placeholder in template: 'input'' @ [CHR 0x27])) \<and>
   build_command demo_lib demo_env (toggle_tool [])
     [(''verbose'', PBool True), (''path'', PStr ''/tmp/a''), (''_output_dir'', PNone)] =
     Inl (ValueError ''Command template is empty.'') \<and>
   build_command demo_lib demo_env (toggle_tool ''{python_u} {script} --in {path} {verbose_flag} {verbose_yn} {verbose_01}'')
     [(''verbose'', PBool True), (''path'', PStr ''/tmp/a''), (''_output_dir'', PNone)] =
     Inr [PStr ''/usr/bin/python3'', PStr ''-u'', PStr ''/x/run.py'', PStr ''--in'', PStr ''/tmp/a'',
          PStr ''--verbose'', PStr ''yes'', PStr ''1'']"
proof -
  let ?vals = "[(''verbose'', PBool True), (''path'', PStr ''/tmp/a''), (''_output_dir'', PNone)] :: unit pydict"
  let ?ps = "[Field ''python'', Lit '' --in '', Field ''input'']"
  have m: "runner_mode (toggle_tool r) = ''command''" for r
    by (simp add: toggle_tool_def)
  have f: "isfile demo_env (py_exe demo_env)"
    by (simp add: demo_env_def py_exe_def)
  have r: "runner (toggle_tool ''{python} --in {input}'') = render ?ps"
    "runner (toggle_tool ''{python} --in {input}'') \<noteq> []"
    "list_all field_ok (field_names ?ps)"
    by code_simp+
  have u: "first_undeclared
     (placeholders demo_lib demo_env (toggle_tool ''{python} --in {input}'') ?vals) ?ps = Some ''input''"
    by code_simp
  have q: "py_repr ''input'' = [CHR 0x27] @ ''input'' @ [CHR 0x27]"
    by code_simp
  have e: "runner (toggle_tool []) = []"
    by (simp add: toggle_tool_def)
  have ok: "build_command demo_lib demo_env (toggle_tool ''{python_u} {script} --in {path} {verbose_flag} {verbose_yn} {verbose_01}'')
      ?vals =
     Inr [PStr ''/usr/bin/python3'', PStr ''-u'', PStr ''/x/run.py'', PStr ''--in'', PStr ''/tmp/a'',
          PStr ''--verbose'', PStr ''yes'', PStr ''1'']"
    by code_simp
  from command_compilation [OF m f, of "''{python} --in {input}''" demo_lib ?vals] r u
  have "build_command demo_lib demo_env (toggle_tool ''{python} --in {input}'') ?vals =
      Inl (ValueError (''Missing placeholder in template: '' @ py_repr ''input''))"
    by (elim conjE allE [of _ ?ps]) simp
  moreover from command_compilation [OF m f, of "[]" demo_lib ?vals] e
  have "build_command demo_lib demo_env (toggle_tool []) ?vals =
      Inl (ValueError ''Command template is empty.'')"
    by blast
  ultimately show ?thesis using m f u ok by (simp add: q)
qed

section \<open>Completion events and cancellation\<close>

text \<open>
  C2 at a launch failure. \<^verbatim>\<open>ProcRunner.run\<close> reports the error and then emits
  \<^verbatim>\<open>finished\<close> with -1. \<^verbatim>\<open>QProcRunner\<close>, the runner that \<^verbatim>\<open>_start_run\<close> creates,
  emits nothing at all when the program cannot be started.
\<close>

theorem launch_failure_events:
  "ProcRunner_run \<lparr>spawn_error = Some ''No such file or directory'', stdout_lines = [],
                    read_error = None, exit_code = 0\<rparr> =
     [Started, ErrorReported ''No such file or directory'', Finished (- 1)] \<and>
   QProcRunner_start [''/no/such/program''] FailedToStart = Inr [] \<and>
   QProcRunner_start [''/bin/echo'', ''hi''] (Ran [''hi'' @ [CHR 0x0A]] 0) =
     Inr [LineReady ''hi'', Finished 0]"
  by code_simp

text \<open>
  C3, as stated, fails: the Stop button's \<^verbatim>\<open>QProcRunner.kill\<close> kills a running child
  at once, with no soft interrupt and no pause before it.
\<close>

theorem immediate_kill_counterexample:
  "QProcRunner_kill Running = [Kill]"
  by code_simp

text \<open>
  C3, amended. \<^verbatim>\<open>ProcRunner.stop\<close> never raises. With a process at hand and a soft
  interrupt that is delivered, it sends the break signal, pauses 0.4 s and kills on
  Windows; elsewhere it terminates, pauses 0.5 s, polls, and kills when the child has not
  exited. \<^verbatim>\<open>QProcRunner.kill\<close> kills a child that is not in the state
  \<^verbatim>\<open>NotRunning\<close> at once and does nothing otherwise.
\<close>

theorem stop_protocol:
  "snd (ProcRunner_stop e) = False \<and>
   (has_proc e \<and> \<not> soft_raises e \<longrightarrow>
      fst (ProcRunner_stop e) =
        (if is_nt e then [SendCtrlBreak, Sleep 400, Kill]
         else [Terminate, Sleep 500, Poll] @ (if exited e then [] else [Kill]))) \<and>
   (\<not> has_proc e \<longrightarrow> fst (ProcRunner_stop e) = []) \<and>
   QProcRunner_kill st = (if st = NotRunning then [] else [Kill])"
  by (simp add: ProcRunner_stop_def stop_body_def QProcRunner_kill_def)

theorem stop_protocol_witness:
  "has_proc \<lparr>is_nt = False, has_proc = True, soft_raises = False, exited = False, kill_raises = False\<rparr> \<and>
   \<not> soft_raises \<lparr>is_nt = False, has_proc = True, soft_raises = False, exited = False, kill_raises = False\<rparr> \<and>
   ProcRunner_stop \<lparr>is_nt = False, has_proc = True, soft_raises = False, exited = False, kill_raises = False\<rparr> =
     ([Terminate, Sleep 500, Poll, Kill], False) \<and>
   ProcRunner_stop \<lparr>is_nt = True, has_proc = True, soft_raises = False, exited = True, kill_raises = True\<rparr> =
     ([SendCtrlBreak, Sleep 400, Kill], False)"
proof -
  let ?e = "\<lparr>is_nt = False, has_proc = True, soft_raises = False, exited = False, kill_raises = False\<rparr>"
  let ?w = "\<lparr>is_nt = True, has_proc = True, soft_raises = False, exited = True, kill_raises = True\<rparr>"
  from stop_protocol [of ?e] stop_protocol [of ?w]
  have "fst (ProcRunner_stop ?e) = [Terminate, Sleep 500, Poll, Kill]"
    "snd (ProcRunner_stop ?e) = False"
    "fst (ProcRunner_stop ?w) = [SendCtrlBreak, Sleep 400, Kill]"
    "snd (ProcRunner_stop ?w) = False"
    by simp_all
  then show ?thesis by (simp add: prod_eq_iff)
qed

section \<open>Export and import: strings and widgets\<close>




























lemma find_text_missing: "x \<notin> set items \<Longrightarrow> find_text items x = - 1"
  by (induction items) (auto simp: Let_def)






section \<open>Export and import: one value\<close>















section \<open>Export and import: the whole form\<close>









end
